theory Spec2Isabelle
  imports Main "HOL-Library.AList"
begin

section \<open>The Delta API client (covata/delta/apiclient.py)\<close>

text \<open>
  A shallow embedding of \<^verbatim>\<open>ApiClient\<close>. Every operation of the client builds the
  arguments of one call to the \<^verbatim>\<open>requests\<close> library, hands them over together with
  the signing function of the requestor, checks the status of the response and
  decodes it. An operation of the model returns the list of calls it handed to
  \<^verbatim>\<open>requests\<close> (empty when it raised before reaching the library) together with
  its result, an exception being the left summand.
\<close>

subsection \<open>Python values\<close>

text \<open>
  The values that travel through the client: \<^verbatim>\<open>None\<close>, booleans, integers, strings,
  lists and dictionaries with string keys (the decoded form of a JSON document, and
  the values put into query parameters and JSON payloads). JSON numbers with a
  fraction are left out. A dictionary is the list of its items in insertion order;
  the keys of a well-formed one are distinct.
\<close>

datatype pyval =
    PNone
  | PBool bool
  | PInt int
  | PStr string
  | PList "pyval list"
  | PDict "(string \<times> pyval) list"

text \<open>\<^verbatim>\<open>None if x is None else str(x)\<close> for an optional identifier that is a string.\<close>

definition none_or_str :: "string option \<Rightarrow> pyval" where
  "none_or_str x = (case x of None \<Rightarrow> PNone | Some s \<Rightarrow> PStr s)"

text \<open>A \<^verbatim>\<open>dict[str, str]\<close> as a Python value.\<close>

definition str_dict :: "(string \<times> string) list \<Rightarrow> pyval" where
  "str_dict m = PDict (map (\<lambda>(k, v). (k, PStr v)) m)"

subsection \<open>Decimal strings: \<^verbatim>\<open>str(int)\<close> and \<^verbatim>\<open>int(str)\<close>\<close>

definition digit_char :: "nat \<Rightarrow> char" where
  "digit_char d = char_of (48 + d)"

function digits :: "nat \<Rightarrow> string" where
  "digits n = (if n < 10 then [digit_char n] else digits (n div 10) @ [digit_char (n mod 10)])"
  by pat_completeness auto
termination
  by (relation "measure (\<lambda>n. n)") auto

declare digits.simps [simp del]

text \<open>\<^verbatim>\<open>str(i)\<close> for an integer: the decimal digits, after a minus sign when negative.\<close>

definition str_int :: "int \<Rightarrow> string" where
  "str_int i = (if i < 0 then CHR ''-'' # digits (nat (- i)) else digits (nat i))"







subsection \<open>Requests, responses and exceptions\<close>

text \<open>
  The keyword arguments of a call to \<^verbatim>\<open>requests.get\<close>, \<^verbatim>\<open>post\<close>, \<^verbatim>\<open>put\<close>
  or \<^verbatim>\<open>delete\<close>; \<open>verb\<close> is the function called. The \<^verbatim>\<open>auth\<close> argument is passed
  beside the record.
\<close>

record http_call =
  verb :: string
  url :: string
  params :: "(string \<times> pyval) list"
  headers :: "(string \<times> string) list"
  json :: "pyval option"

text \<open>
  The \<^verbatim>\<open>PreparedRequest\<close> the library builds from a call and hands to the
  \<^verbatim>\<open>auth\<close> function: the fields \<^verbatim>\<open>sign_request\<close> reads and writes.
\<close>

record prepared_request =
  r_method :: string
  r_url :: string
  r_headers :: "(string \<times> string) list"
  r_body :: "string option"

text \<open>
  The \<^verbatim>\<open>Response\<close>: \<open>resp_json\<close> is what \<^verbatim>\<open>response.json()\<close> decodes, \<open>None\<close>
  when the body is not a JSON document; \<open>resp_headers\<close> are the items of the
  case-insensitive header dictionary.
\<close>

record response =
  status_code :: int
  resp_headers :: "(string \<times> string) list"
  resp_json :: "pyval option"
  resp_text :: string

text \<open>
  The exceptions an operation can end with. \<open>HTTPError\<close> is the exception
  \<^verbatim>\<open>raise_for_status\<close> raises; it carries the response (the RemoteError of the
  specification). \<open>VersionConflict\<close> is the specialisation the specification names for
  metadata updates; it is part of the type so that a result can be compared with it.
  \<open>ValidationError\<close> is raised by the argument checks of \<^verbatim>\<open>utils\<close>,
  \<open>SigningError\<close> by the key store or the header signer, \<open>ConnectionError\<close> by the
  transport; the other four are Python's own.
\<close>

datatype error =
    ValidationError
  | SigningError
  | ConnectionError
  | HTTPError response
  | VersionConflict response
  | KeyError
  | ValueError
  | TypeError
  | AttributeError

type_synonym 'a outcome = "http_call list \<times> (error + 'a)"

text \<open>Sequencing of two steps that may raise.\<close>

definition and_then :: "error + 'a \<Rightarrow> ('a \<Rightarrow> error + 'b) \<Rightarrow> error + 'b" where
  "and_then x f = (case x of Inl e \<Rightarrow> Inl e | Inr a \<Rightarrow> f a)"


text \<open>
  \<^verbatim>\<open>Response.raise_for_status()\<close>: a status from 400 to 599 raises \<^verbatim>\<open>HTTPError\<close>
  with the response attached, every other status returns.
\<close>

definition raise_for_status :: "response \<Rightarrow> error + unit" where
  "raise_for_status r =
     (if 400 \<le> status_code r \<and> status_code r < 600 then Inl (HTTPError r) else Inr ())"

text \<open>\<^verbatim>\<open>response.json()\<close>: the decoded body, \<^verbatim>\<open>ValueError\<close> when there is none.\<close>

definition response_json :: "response \<Rightarrow> error + pyval" where
  "response_json r = (case resp_json r of None \<Rightarrow> Inl ValueError | Some j \<Rightarrow> Inr j)"

text \<open>
  \<^verbatim>\<open>x[key]\<close> with a string key on a decoded JSON value: a dictionary without the key
  raises \<^verbatim>\<open>KeyError\<close>, a value that is no dictionary raises \<^verbatim>\<open>TypeError\<close>.
\<close>

definition getitem :: "pyval \<Rightarrow> string \<Rightarrow> error + pyval" where
  "getitem x key =
     (case x of
        PDict items \<Rightarrow> (case map_of items key of None \<Rightarrow> Inl KeyError | Some v \<Rightarrow> Inr v)
      | _ \<Rightarrow> Inl TypeError)"





text \<open>
  The library leaves every query parameter whose value is \<^verbatim>\<open>None\<close> out of the URL:
  these are the parameters of a call that reach the wire.
\<close>

definition sent_params :: "(string \<times> pyval) list \<Rightarrow> (string \<times> pyval) list" where
  "sent_params ps = filter (\<lambda>(k, v). v \<noteq> PNone) ps"







subsection \<open>The collaborators of the client\<close>

text \<open>
  What the client calls and does not implement: the key store
  (\<^verbatim>\<open>key_store.get_private_signing_key\<close>), the header signer
  (\<^verbatim>\<open>signer.get_updated_headers\<close>, a module that is not among the sources), and
  the two halves of the \<^verbatim>\<open>requests\<close> library around the \<^verbatim>\<open>auth\<close> hook: the
  preparation of a request from the arguments of a call, and its transmission. They
  are parameters of the model; each of the first two and the transmission may raise.
\<close>

record 'key env =
  get_private_signing_key :: "string \<Rightarrow> error + 'key"
  get_updated_headers ::
    "string \<Rightarrow> string \<Rightarrow> string \<Rightarrow> (string \<times> string) list \<Rightarrow> string option \<Rightarrow> 'key
       \<Rightarrow> error + (string \<times> string) list"
  prepare :: "http_call \<Rightarrow> prepared_request"
  transmit :: "prepared_request \<Rightarrow> error + response"

text \<open>
  Modelled from the spec: the argument checks of \<^verbatim>\<open>covata/delta/utils.py\<close>, which is
  not among the sources. The specification says that malformed identifiers, empty
  required maps and wrong types are detected before any network call and end in a
  validation error. What \<^verbatim>\<open>check_id\<close>, \<^verbatim>\<open>check_optional_id\<close>,
  \<^verbatim>\<open>check_optional_pagination\<close> and \<^verbatim>\<open>check_metadata\<close> accept is not said, so their
  predicates are parameters; the predicates handed to \<^verbatim>\<open>check_arguments\<close> are in the
  source and are written out where they are used.
\<close>

record utils =
  valid_id :: "string \<Rightarrow> bool"
  valid_optional_id :: "string option \<Rightarrow> bool"
  valid_pagination :: "int option \<Rightarrow> bool"
  valid_metadata :: "(string \<times> string) list \<Rightarrow> bool"

text \<open>
  Modelled from the spec: a decorator of \<^verbatim>\<open>utils\<close> around an operation. When the
  predicate fails on the argument the operation is not entered: nothing is handed to
  \<^verbatim>\<open>requests\<close> and the call ends in a validation error.
\<close>

definition check_arguments :: "bool \<Rightarrow> 'a outcome \<Rightarrow> 'a outcome" where
  "check_arguments ok operation = (if ok then operation else ([], Inl ValidationError))"

subsection \<open>Signing\<close>

text \<open>
  \<^verbatim>\<open>sign_request\<close>, the function \<^verbatim>\<open>signer\<close> returns: it looks the signing key up,
  computes the signed headers from the fields of the request and stores them in
  \<^verbatim>\<open>r.headers\<close>.
\<close>

definition sign_request :: "'key env \<Rightarrow> string \<Rightarrow> prepared_request \<Rightarrow> error + prepared_request" where
  "sign_request E identity_id r =
     and_then (get_private_signing_key E identity_id) (\<lambda>signing_key.
     and_then (get_updated_headers E identity_id (r_method r) (r_url r) (r_headers r) (r_body r)
                 signing_key) (\<lambda>signed.
     Inr (r\<lparr>r_headers := signed\<rparr>)))"

text \<open>\<^verbatim>\<open>signer\<close> is decorated with \<^verbatim>\<open>check_id("identity_id")\<close>.\<close>

definition signer ::
  "utils \<Rightarrow> 'key env \<Rightarrow> string \<Rightarrow> error + (prepared_request \<Rightarrow> error + prepared_request)" where
  "signer U E identity_id =
     (if valid_id U identity_id then Inr (sign_request E identity_id) else Inl ValidationError)"

text \<open>
  A call to \<^verbatim>\<open>requests\<close>: the library prepares the request, applies the \<^verbatim>\<open>auth\<close>
  function when one is given, and transmits what it returns.
\<close>

definition request ::
  "'key env \<Rightarrow> (prepared_request \<Rightarrow> error + prepared_request) option \<Rightarrow> http_call
     \<Rightarrow> error + response" where
  "request E auth c =
     (case auth of
        None \<Rightarrow> transmit E (prepare E c)
      | Some sign \<Rightarrow> and_then (sign (prepare E c)) (transmit E))"

subsection \<open>The operations\<close>


definition DELTA_URL :: string where
  "DELTA_URL = ''https://delta.covata.io/v1''"

definition RESOURCE_IDENTITIES :: string where
  "RESOURCE_IDENTITIES = ''/identities''"

definition RESOURCE_SECRETS :: string where
  "RESOURCE_SECRETS = ''/secrets''"

text \<open>
  \<^verbatim>\<open>register_identity\<close>: the dictionary \<^verbatim>\<open>body\<close> with its four entries, and the
  payload that keeps the entries whose value \<^verbatim>\<open>is not None\<close>. The two keys are
  strings; the external id and the metadata may be \<^verbatim>\<open>None\<close>.
\<close>

definition register_identity_body ::
  "string \<Rightarrow> string \<Rightarrow> string option \<Rightarrow> (string \<times> string) list option \<Rightarrow> (string \<times> pyval) list" where
  "register_identity_body public_encryption_key public_signing_key external_id metadata =
     [(''signingPublicKey'', PStr public_signing_key),
      (''cryptoPublicKey'', PStr public_encryption_key),
      (''externalId'', none_or_str external_id),
      (''metadata'', case metadata of None \<Rightarrow> PNone | Some m \<Rightarrow> str_dict m)]"

definition register_identity_json ::
  "string \<Rightarrow> string \<Rightarrow> string option \<Rightarrow> (string \<times> string) list option \<Rightarrow> (string \<times> pyval) list" where
  "register_identity_json public_encryption_key public_signing_key external_id metadata =
     filter (\<lambda>(k, v). v \<noteq> PNone)
       (register_identity_body public_encryption_key public_signing_key external_id metadata)"

definition register_identity_call ::
  "string \<Rightarrow> string \<Rightarrow> string option \<Rightarrow> (string \<times> string) list option \<Rightarrow> http_call" where
  "register_identity_call public_encryption_key public_signing_key external_id metadata =
     \<lparr>verb = ''POST'', url = DELTA_URL @ RESOURCE_IDENTITIES, params = [], headers = [],
      json = Some (PDict (register_identity_json public_encryption_key public_signing_key
                            external_id metadata))\<rparr>"

definition register_identity ::
  "'key env \<Rightarrow> string \<Rightarrow> string \<Rightarrow> string option \<Rightarrow> (string \<times> string) list option
     \<Rightarrow> pyval outcome" where
  "register_identity E public_encryption_key public_signing_key external_id metadata =
     (let c = register_identity_call public_encryption_key public_signing_key external_id metadata
      in ([c],
          and_then (request E None c) (\<lambda>response.
          and_then (raise_for_status response) (\<lambda>_.
          and_then (response_json response) (\<lambda>j.
          getitem j ''identityId'')))))"

text \<open>\<^verbatim>\<open>int(page) if page else None\<close>: zero is as false as \<^verbatim>\<open>None\<close>.\<close>

definition page_param :: "int option \<Rightarrow> pyval" where
  "page_param page = (case page of None \<Rightarrow> PNone | Some n \<Rightarrow> if n \<noteq> 0 then PInt n else PNone)"

text \<open>The dictionary \<^verbatim>\<open>metadata_\<close> of the source: \<^verbatim>\<open>dict(("metadata." + k, v) for k, v in metadata.items())\<close>\<close>

definition metadata' :: "(string \<times> string) list \<Rightarrow> (string \<times> pyval) list" where
  "metadata' metadata = map (\<lambda>(k, v). (''metadata.'' @ k, PStr v)) metadata"

text \<open>
  \<^verbatim>\<open>get_identities_by_metadata\<close>: \<^verbatim>\<open>dict(metadata_, page=..., pageSize=...)\<close>
  copies \<^verbatim>\<open>metadata_\<close> and then stores the two keyword entries.
\<close>

definition get_identities_by_metadata_params ::
  "(string \<times> string) list \<Rightarrow> int option \<Rightarrow> int option \<Rightarrow> (string \<times> pyval) list" where
  "get_identities_by_metadata_params metadata page page_size =
     AList.update ''pageSize'' (page_param page_size)
       (AList.update ''page'' (page_param page) (metadata' metadata))"

definition get_identities_by_metadata_call ::
  "(string \<times> string) list \<Rightarrow> int option \<Rightarrow> int option \<Rightarrow> http_call" where
  "get_identities_by_metadata_call metadata page page_size =
     \<lparr>verb = ''GET'', url = DELTA_URL @ RESOURCE_IDENTITIES,
      params = get_identities_by_metadata_params metadata page page_size,
      headers = [], json = None\<rparr>"

text \<open>
  The decorators run from the outermost inwards: \<^verbatim>\<open>check_id\<close>,
  \<^verbatim>\<open>check_optional_pagination\<close>, and \<^verbatim>\<open>check_arguments\<close> with the predicate
  \<^verbatim>\<open>lambda x: x is not None and dict(x)\<close>, which is false on \<^verbatim>\<open>None\<close> and on the
  empty dictionary. In the body \<^verbatim>\<open>metadata.items()\<close> would raise on \<^verbatim>\<open>None\<close>.
\<close>

definition get_identities_by_metadata ::
  "utils \<Rightarrow> 'key env \<Rightarrow> string \<Rightarrow> (string \<times> string) list option \<Rightarrow> int option \<Rightarrow> int option
     \<Rightarrow> pyval outcome" where
  "get_identities_by_metadata U E requestor_id metadata page page_size =
     check_arguments (valid_id U requestor_id)
    (check_arguments (valid_pagination U page)
    (check_arguments (valid_pagination U page_size)
    (check_arguments (case metadata of None \<Rightarrow> False | Some m \<Rightarrow> m \<noteq> [])
    (case metadata of
       None \<Rightarrow> ([], Inl AttributeError)
     | Some m \<Rightarrow>
        (case signer U E requestor_id of
           Inl e \<Rightarrow> ([], Inl e)
         | Inr auth \<Rightarrow>
            (let c = get_identities_by_metadata_call m page page_size
             in ([c],
                 and_then (request E (Some auth) c) (\<lambda>response.
                 and_then (raise_for_status response) (\<lambda>_.
                 response_json response)))))))))"



text \<open>
  \<^verbatim>\<open>update_secret_metadata\<close>, decorated with \<^verbatim>\<open>check_id("requestor_id, secret_id")\<close>
  and \<^verbatim>\<open>check_metadata("metadata")\<close>; it returns nothing.
\<close>

definition update_secret_metadata_call ::
  "string \<Rightarrow> (string \<times> string) list \<Rightarrow> int \<Rightarrow> http_call" where
  "update_secret_metadata_call secret_id metadata version =
     \<lparr>verb = ''PUT'', url = DELTA_URL @ RESOURCE_SECRETS @ ''/'' @ secret_id @ ''/metadata'',
      params = [], headers = [(''if-match'', str_int version)],
      json = Some (str_dict metadata)\<rparr>"

definition update_secret_metadata ::
  "utils \<Rightarrow> 'key env \<Rightarrow> string \<Rightarrow> string \<Rightarrow> (string \<times> string) list \<Rightarrow> int \<Rightarrow> unit outcome" where
  "update_secret_metadata U E requestor_id secret_id metadata version =
     check_arguments (valid_id U requestor_id)
    (check_arguments (valid_id U secret_id)
    (check_arguments (valid_metadata U metadata)
    (case signer U E requestor_id of
       Inl e \<Rightarrow> ([], Inl e)
     | Inr auth \<Rightarrow>
        (let c = update_secret_metadata_call secret_id metadata version
         in ([c],
             and_then (request E (Some auth) c) (\<lambda>response.
             raise_for_status response))))))"

text \<open>\<^verbatim>\<open>update_identity_metadata\<close>, decorated with \<^verbatim>\<open>check_id("requestor_id, identity_id")\<close>.\<close>

definition update_identity_metadata_call ::
  "string \<Rightarrow> (string \<times> string) list \<Rightarrow> int \<Rightarrow> http_call" where
  "update_identity_metadata_call identity_id metadata version =
     \<lparr>verb = ''PUT'', url = DELTA_URL @ RESOURCE_IDENTITIES @ ''/'' @ identity_id,
      params = [], headers = [(''if-match'', str_int version)],
      json = Some (PDict [(''metadata'', str_dict metadata)])\<rparr>"

definition update_identity_metadata ::
  "utils \<Rightarrow> 'key env \<Rightarrow> string \<Rightarrow> string \<Rightarrow> (string \<times> string) list \<Rightarrow> int \<Rightarrow> unit outcome" where
  "update_identity_metadata U E requestor_id identity_id metadata version =
     check_arguments (valid_id U requestor_id)
    (check_arguments (valid_id U identity_id)
    (case signer U E requestor_id of
       Inl e \<Rightarrow> ([], Inl e)
     | Inr auth \<Rightarrow>
        (let c = update_identity_metadata_call identity_id metadata version
         in ([c],
             and_then (request E (Some auth) c) (\<lambda>response.
             raise_for_status response)))))"




subsection \<open>Example collaborators\<close>

text \<open>
  Concrete collaborators on which the theorems below are instantiated: checks that
  accept every non-empty identifier, every positive page number and every metadata
  dictionary, a key store and a header signer that never
  fail, a preparation that copies the call, and a transport that answers every
  request with one given response.
\<close>

definition example_utils :: utils where
  "example_utils =
     \<lparr>valid_id = (\<lambda>i. i \<noteq> []), valid_optional_id = (\<lambda>i. i \<noteq> Some []),
      valid_pagination = (\<lambda>p. case p of None \<Rightarrow> True | Some n \<Rightarrow> 0 < n),
      valid_metadata = (\<lambda>m. True)\<rparr>"

definition example_env :: "response \<Rightarrow> string env" where
  "example_env resp =
     \<lparr>get_private_signing_key = (\<lambda>i. Inr (''key of '' @ i)),
      get_updated_headers = (\<lambda>i m u h b k. Inr ((''Authorization'', k) # h)),
      prepare = (\<lambda>c. \<lparr>r_method = verb c, r_url = url c, r_headers = headers c, r_body = None\<rparr>),
      transmit = (\<lambda>r. Inr resp)\<rparr>"

definition example_response :: "int \<Rightarrow> (string \<times> string) list \<Rightarrow> pyval \<Rightarrow> response" where
  "example_response status hs body =
     \<lparr>status_code = status, resp_headers = hs, resp_json = Some body, resp_text = []\<rparr>"

section \<open>Properties\<close>

subsection \<open>Auxiliary facts\<close>













lemma and_then_Inl [simp]: "and_then (Inl e) f = Inl e"
  by (simp add: and_then_def)

lemma and_then_Inr [simp]: "and_then (Inr a) f = f a"
  by (simp add: and_then_def)











subsection \<open>Secret queries\<close>








subsection \<open>Registration\<close>

text \<open>
  C4. \<^verbatim>\<open>register_identity\<close> issues one request whose JSON payload always holds
  \<^verbatim>\<open>signingPublicKey\<close> and \<^verbatim>\<open>cryptoPublicKey\<close>, holds the key \<^verbatim>\<open>externalId\<close>
  exactly when an external id is given and the key \<^verbatim>\<open>metadata\<close> exactly when
  metadata is given, and holds no \<^verbatim>\<open>None\<close> value.
\<close>

theorem register_identity_payload:
  "fst (register_identity E public_encryption_key public_signing_key external_id metadata)
     = [register_identity_call public_encryption_key public_signing_key external_id metadata]
   \<and> json (register_identity_call public_encryption_key public_signing_key external_id metadata)
     = Some (PDict (register_identity_json public_encryption_key public_signing_key
                      external_id metadata))
   \<and> map_of (register_identity_json public_encryption_key public_signing_key external_id metadata)
       ''signingPublicKey'' = Some (PStr public_signing_key)
   \<and> map_of (register_identity_json public_encryption_key public_signing_key external_id metadata)
       ''cryptoPublicKey'' = Some (PStr public_encryption_key)
   \<and> (''externalId'' \<in> fst ` set (register_identity_json public_encryption_key public_signing_key
                                      external_id metadata)) = (external_id \<noteq> None)
   \<and> (''metadata'' \<in> fst ` set (register_identity_json public_encryption_key public_signing_key
                                    external_id metadata)) = (metadata \<noteq> None)
   \<and> PNone \<notin> snd ` set (register_identity_json public_encryption_key public_signing_key
                           external_id metadata)"
  by (cases external_id; cases metadata)
     (auto simp: register_identity_def register_identity_call_def register_identity_json_def
        register_identity_body_def none_or_str_def str_dict_def Let_def)

subsection \<open>Signing\<close>

text \<open>
  C9. The function returned by \<^verbatim>\<open>signer(identity_id)\<close> changes only the headers of
  a prepared request: method, URL and body of the signed request are those of the
  original, and the new headers are the ones the header signer computed from the
  original request and the identity's signing key.
\<close>

theorem signer_changes_only_headers:
  assumes "signer U E identity_id = Inr sign" and "sign r = Inr r'"
  shows "r_method r' = r_method r \<and> r_url r' = r_url r \<and> r_body r' = r_body r
         \<and> r' = r\<lparr>r_headers := r_headers r'\<rparr>
         \<and> (\<exists>signing_key. get_private_signing_key E identity_id = Inr signing_key
              \<and> get_updated_headers E identity_id (r_method r) (r_url r) (r_headers r) (r_body r)
                   signing_key = Inr (r_headers r'))"
proof -
  from assms(1) have sign: "sign = sign_request E identity_id"
    by (simp add: signer_def split: if_splits)
  from assms(2) show ?thesis
    unfolding sign sign_request_def and_then_def
    by (auto split: sum.splits)
qed

theorem signer_changes_only_headers_witness:
  "signer example_utils (example_env (example_response 200 [] PNone)) ''i1''
     = Inr (sign_request (example_env (example_response 200 [] PNone)) ''i1'')
   \<and> sign_request (example_env (example_response 200 [] PNone)) ''i1''
         \<lparr>r_method = ''GET'', r_url = ''u'', r_headers = [(''Accept'', ''*'')], r_body = Some ''b''\<rparr>
     = Inr \<lparr>r_method = ''GET'', r_url = ''u'',
            r_headers = [(''Authorization'', ''key of i1''), (''Accept'', ''*'')], r_body = Some ''b''\<rparr>
   \<and> r_method \<lparr>r_method = ''GET'', r_url = ''u'',
            r_headers = [(''Authorization'', ''key of i1''), (''Accept'', ''*'')], r_body = Some ''b''\<rparr>
       = ''GET''"
proof -
  have s: "signer example_utils (example_env (example_response 200 [] PNone)) ''i1''
     = Inr (sign_request (example_env (example_response 200 [] PNone)) ''i1'')"
    by (simp add: signer_def example_utils_def)
  have r: "sign_request (example_env (example_response 200 [] PNone)) ''i1''
         \<lparr>r_method = ''GET'', r_url = ''u'', r_headers = [(''Accept'', ''*'')], r_body = Some ''b''\<rparr>
     = Inr \<lparr>r_method = ''GET'', r_url = ''u'',
            r_headers = [(''Authorization'', ''key of i1''), (''Accept'', ''*'')], r_body = Some ''b''\<rparr>"
    by (simp add: sign_request_def example_env_def)
  show ?thesis
    using s r signer_changes_only_headers [OF s r] by simp
qed









subsection \<open>Pagination\<close>


lemma update_keeps_other: "(k, v) \<in> set ps \<Longrightarrow> k \<noteq> k' \<Longrightarrow> (k, v) \<in> set (AList.update k' v' ps)"
  by (induction ps) auto

lemma get_identities_by_metadata_calls:
  "c \<in> set (fst (get_identities_by_metadata U E rid md p ps)) \<Longrightarrow>
   \<exists>m. md = Some m \<and> c = get_identities_by_metadata_call m p ps"
  by (auto simp: get_identities_by_metadata_def check_arguments_def Let_def
      split: if_splits sum.splits option.splits)

lemma identities_params_metadata:
  assumes "(k, v) \<in> set m"
  shows "(''metadata.'' @ k, PStr v) \<in> set (sent_params (get_identities_by_metadata_params m p ps))"
proof -
  have "(''metadata.'' @ k, PStr v) \<in> set (metadata' m)"
    using assms by (force simp: metadata'_def)
  then have "(''metadata.'' @ k, PStr v) \<in> set (get_identities_by_metadata_params m p ps)"
    unfolding get_identities_by_metadata_params_def
    by (intro update_keeps_other) simp_all
  then show ?thesis by (simp add: sent_params_def)
qed

subsection \<open>Identity queries\<close>

text \<open>
  C8. \<^verbatim>\<open>get_identities_by_metadata\<close> called with \<^verbatim>\<open>None\<close> or the empty dictionary as
  metadata ends in a validation error and hands nothing to \<^verbatim>\<open>requests\<close>. Every
  request it does issue carries, for each item \<open>(k, v)\<close> of the metadata, the query
  parameter \<^verbatim>\<open>"metadata." + k\<close> with value \<open>v\<close>; and it issues the request whenever
  the metadata is not empty and the other checks pass.
\<close>

theorem get_identities_by_metadata_checks_metadata:
  "(metadata = None \<or> metadata = Some [] \<longrightarrow>
      get_identities_by_metadata U E requestor_id metadata page page_size
        = ([], Inl ValidationError))
   \<and> (\<forall>c \<in> set (fst (get_identities_by_metadata U E requestor_id metadata page page_size)).
        \<forall>m k v. metadata = Some m \<and> (k, v) \<in> set m \<longrightarrow>
          (''metadata.'' @ k, PStr v) \<in> set (sent_params (params c)))
   \<and> (\<forall>m. metadata = Some m \<and> m \<noteq> [] \<and> valid_id U requestor_id \<and> valid_pagination U page
          \<and> valid_pagination U page_size \<longrightarrow>
        fst (get_identities_by_metadata U E requestor_id metadata page page_size)
          = [get_identities_by_metadata_call m page page_size])"
proof (intro conjI)
  show "metadata = None \<or> metadata = Some [] \<longrightarrow>
      get_identities_by_metadata U E requestor_id metadata page page_size
        = ([], Inl ValidationError)"
    by (auto simp: get_identities_by_metadata_def check_arguments_def)
next
  show "\<forall>c \<in> set (fst (get_identities_by_metadata U E requestor_id metadata page page_size)).
        \<forall>m k v. metadata = Some m \<and> (k, v) \<in> set m \<longrightarrow>
          (''metadata.'' @ k, PStr v) \<in> set (sent_params (params c))"
  proof (intro ballI allI impI)
    fix c m k v
    assume c: "c \<in> set (fst (get_identities_by_metadata U E requestor_id metadata page page_size))"
      and m: "metadata = Some m \<and> (k, v) \<in> set m"
    from get_identities_by_metadata_calls [OF c] m
    have "params c = get_identities_by_metadata_params m page page_size"
      by (auto simp: get_identities_by_metadata_call_def)
    moreover from m have "(''metadata.'' @ k, PStr v)
        \<in> set (sent_params (get_identities_by_metadata_params m page page_size))"
      by (intro identities_params_metadata) simp
    ultimately show "(''metadata.'' @ k, PStr v) \<in> set (sent_params (params c))"
      by (simp only:)
  qed
next
  show "\<forall>m. metadata = Some m \<and> m \<noteq> [] \<and> valid_id U requestor_id \<and> valid_pagination U page
          \<and> valid_pagination U page_size \<longrightarrow>
        fst (get_identities_by_metadata U E requestor_id metadata page page_size)
          = [get_identities_by_metadata_call m page page_size]"
    by (auto simp: get_identities_by_metadata_def check_arguments_def signer_def Let_def)
qed

theorem get_identities_by_metadata_checks_metadata_witness:
  "get_identities_by_metadata example_utils (example_env (example_response 200 [] (PList [])))
       ''i1'' (Some []) None None = ([], Inl ValidationError)
   \<and> get_identities_by_metadata_call [(''name'', ''Bob'')] (Some 1) None
       \<in> set (fst (get_identities_by_metadata example_utils
                     (example_env (example_response 200 [] (PList [])))
                     ''i1'' (Some [(''name'', ''Bob'')]) (Some 1) None))
   \<and> (''metadata.name'', PStr ''Bob'')
       \<in> set (sent_params (params (get_identities_by_metadata_call [(''name'', ''Bob'')] (Some 1) None)))"
proof -
  have h: "get_identities_by_metadata_call [(''name'', ''Bob'')] (Some 1) None
       \<in> set (fst (get_identities_by_metadata example_utils
                     (example_env (example_response 200 [] (PList [])))
                     ''i1'' (Some [(''name'', ''Bob'')]) (Some 1) None))"
    by (simp add: get_identities_by_metadata_def check_arguments_def signer_def example_utils_def
          Let_def)
  have a: "get_identities_by_metadata example_utils (example_env (example_response 200 [] (PList [])))
       ''i1'' (Some []) None None = ([], Inl ValidationError)"
    using get_identities_by_metadata_checks_metadata
      [of "Some []" example_utils "example_env (example_response 200 [] (PList []))" "''i1''" None None]
    by simp
  have b: "(''metadata.name'', PStr ''Bob'')
       \<in> set (sent_params (params (get_identities_by_metadata_call [(''name'', ''Bob'')] (Some 1) None)))"
    using h get_identities_by_metadata_checks_metadata
      [of "Some [(''name'', ''Bob'')]" example_utils "example_env (example_response 200 [] (PList []))"
          "''i1''" "Some 1" None]
    by force
  from a h b show ?thesis by blast
qed




subsection \<open>Metadata updates\<close>



subsection \<open>Status of the response\<close>

text \<open>
  C5, amended. When the request of \<^verbatim>\<open>register_identity\<close> is answered with a status
  from 400 to 599 the call ends in the \<^verbatim>\<open>HTTPError\<close> that carries the response, and
  no identity id is returned; a response with any other status, inside the 2xx range
  or not, is decoded, and the call returns the \<^verbatim>\<open>identityId\<close> entry of the body or
  ends in the exception of the decoding.
\<close>

theorem register_identity_error_status:
  assumes "request E None (register_identity_call public_encryption_key public_signing_key
                             external_id metadata) = Inr r"
  shows "register_identity E public_encryption_key public_signing_key external_id metadata
         = ([register_identity_call public_encryption_key public_signing_key external_id metadata],
            if 400 \<le> status_code r \<and> status_code r < 600 then Inl (HTTPError r)
            else and_then (response_json r) (\<lambda>j. getitem j ''identityId''))"
  using assms by (simp add: register_identity_def raise_for_status_def Let_def)

theorem register_identity_error_status_witness:
  "request (example_env (example_response 404 [] PNone)) None
       (register_identity_call ''ek1'' ''sk1'' None None) = Inr (example_response 404 [] PNone)
   \<and> register_identity (example_env (example_response 404 [] PNone)) ''ek1'' ''sk1'' None None
       = ([register_identity_call ''ek1'' ''sk1'' None None],
          Inl (HTTPError (example_response 404 [] PNone)))"
proof -
  have a: "request (example_env (example_response 404 [] PNone)) None
       (register_identity_call ''ek1'' ''sk1'' None None) = Inr (example_response 404 [] PNone)"
    by (simp add: request_def example_env_def)
  have b: "status_code (example_response 404 [] PNone) = 404"
    by (simp add: example_response_def)
  from a register_identity_error_status [OF a] show ?thesis by (simp add: b)
qed

text \<open>
  C5 as stated fails: a response with status 300, which is not a 2xx status, whose
  body holds an \<^verbatim>\<open>identityId\<close> is not turned into an error; the id is returned.
\<close>

theorem register_identity_status_300_counterexample:
  "\<not> (200 \<le> status_code (example_response 300 [] (PDict [(''identityId'', PStr ''i1'')]))
       \<and> status_code (example_response 300 [] (PDict [(''identityId'', PStr ''i1'')])) < 300)
   \<and> register_identity (example_env (example_response 300 [] (PDict [(''identityId'', PStr ''i1'')])))
        ''ek1'' ''sk1'' None None
      = ([register_identity_call ''ek1'' ''sk1'' None None], Inr (PStr ''i1''))"
  by (simp add: register_identity_def request_def example_env_def example_response_def
        raise_for_status_def response_json_def getitem_def Let_def)

subsection \<open>Conflicting metadata updates\<close>

text \<open>
  C2, amended. When the request of \<^verbatim>\<open>update_secret_metadata\<close> or of
  \<^verbatim>\<open>update_identity_metadata\<close> is answered with status 409 or 412, the call ends in
  the \<^verbatim>\<open>HTTPError\<close> of \<^verbatim>\<open>raise_for_status\<close> that carries the response: the same
  exception every other failed request ends in. The conflict can be told from the
  status of the carried response only.
\<close>

theorem metadata_update_conflict_is_http_error:
  assumes "valid_id U requestor_id" and "valid_id U target_id"
    and "status_code r = 409 \<or> status_code r = 412"
  shows "(valid_metadata U metadata
            \<and> request E (Some (sign_request E requestor_id))
                 (update_secret_metadata_call target_id metadata version) = Inr r
          \<longrightarrow> update_secret_metadata U E requestor_id target_id metadata version
                = ([update_secret_metadata_call target_id metadata version], Inl (HTTPError r)))
         \<and> (request E (Some (sign_request E requestor_id))
                 (update_identity_metadata_call target_id metadata version) = Inr r
          \<longrightarrow> update_identity_metadata U E requestor_id target_id metadata version
                = ([update_identity_metadata_call target_id metadata version], Inl (HTTPError r)))"
proof -
  from assms(3) have raise: "raise_for_status r = Inl (HTTPError r)"
    by (auto simp: raise_for_status_def)
  from assms(1) have auth: "signer U E requestor_id = Inr (sign_request E requestor_id)"
    by (simp add: signer_def)
  show ?thesis
    using assms(1,2)
    by (simp add: update_secret_metadata_def update_identity_metadata_def check_arguments_def
          auth raise Let_def)
qed

theorem metadata_update_conflict_is_http_error_witness:
  "valid_id example_utils ''i1'' \<and> valid_id example_utils ''s1''
   \<and> status_code (example_response 412 [] PNone) = 412
   \<and> update_secret_metadata example_utils (example_env (example_response 412 [] PNone))
        ''i1'' ''s1'' [(''name'', ''b'')] 1
      = ([update_secret_metadata_call ''s1'' [(''name'', ''b'')] 1],
         Inl (HTTPError (example_response 412 [] PNone)))
   \<and> update_identity_metadata example_utils (example_env (example_response 412 [] PNone))
        ''i1'' ''s1'' [(''name'', ''b'')] 1
      = ([update_identity_metadata_call ''s1'' [(''name'', ''b'')] 1],
         Inl (HTTPError (example_response 412 [] PNone)))"
proof -
  have a: "valid_id example_utils ''i1''" and b: "valid_id example_utils ''s1''"
    by (simp_all add: example_utils_def)
  have c: "status_code (example_response 412 [] PNone) = 409
           \<or> status_code (example_response 412 [] PNone) = 412"
    by (simp add: example_response_def)
  have m: "valid_metadata example_utils [(''name'', ''b'')]"
    by (simp add: example_utils_def)
  have s: "request (example_env (example_response 412 [] PNone))
             (Some (sign_request (example_env (example_response 412 [] PNone)) ''i1''))
             (update_secret_metadata_call ''s1'' [(''name'', ''b'')] 1)
           = Inr (example_response 412 [] PNone)"
    by (simp add: request_def sign_request_def example_env_def)
  have i: "request (example_env (example_response 412 [] PNone))
             (Some (sign_request (example_env (example_response 412 [] PNone)) ''i1''))
             (update_identity_metadata_call ''s1'' [(''name'', ''b'')] 1)
           = Inr (example_response 412 [] PNone)"
    by (simp add: request_def sign_request_def example_env_def)
  have "status_code (example_response 412 [] PNone) = 412"
    by (simp add: example_response_def)
  with a b m s i
    metadata_update_conflict_is_http_error [OF a b c,
      of "[(''name'', ''b'')]" "example_env (example_response 412 [] PNone)" 1]
  show ?thesis by blast
qed

text \<open>
  C2 as stated fails: on a response with status 412 neither update ends in a
  \<open>VersionConflict\<close>; the secret update ends in the very \<^verbatim>\<open>HTTPError\<close> that
  \<^verbatim>\<open>register_identity\<close>, which updates no metadata, ends in on the same response.
\<close>

theorem metadata_update_conflict_counterexample:
  "status_code (example_response 412 [] PNone) = 412
   \<and> snd (update_secret_metadata example_utils (example_env (example_response 412 [] PNone))
        ''i1'' ''s1'' [(''name'', ''b'')] 1)
      \<noteq> Inl (VersionConflict (example_response 412 [] PNone))
   \<and> snd (update_identity_metadata example_utils (example_env (example_response 412 [] PNone))
        ''i1'' ''i2'' [(''name'', ''b'')] 1)
      \<noteq> Inl (VersionConflict (example_response 412 [] PNone))
   \<and> snd (update_secret_metadata example_utils (example_env (example_response 412 [] PNone))
        ''i1'' ''s1'' [(''name'', ''b'')] 1)
      = Inl (HTTPError (example_response 412 [] PNone))
   \<and> snd (register_identity (example_env (example_response 412 [] PNone)) ''ek1'' ''sk1'' None None)
      = Inl (HTTPError (example_response 412 [] PNone))"
  by (simp add: update_secret_metadata_def update_identity_metadata_def register_identity_def
        check_arguments_def signer_def sign_request_def request_def raise_for_status_def
        example_utils_def example_env_def example_response_def Let_def)

subsection \<open>Reading the metadata of a secret\<close>




end
